theory Spec2Isabelle
  imports Main
begin

section \<open>The PWA install banner (src/components/PWABanner.tsx)\<close>

text \<open>
  The component keeps three pieces of React state (\<open>showBanner\<close>, \<open>deferredPrompt\<close>,
  \<open>isIOS\<close>), one memoised value (\<open>isStandalone\<close>) and one effect that, past four guards,
  schedules a timeout and attaches two window listeners. The browser around it (the two
  storages, the platform queries, the pending timeouts, the listener lists of \<open>window\<close>)
  is part of the state, since every handler reads or writes it. Calls the component makes
  on the browser that leave no state behind (\<open>preventDefault\<close>, \<open>prompt\<close>, \<open>alert\<close>) are
  recorded in a log.
\<close>

subsection \<open>Data\<close>

text \<open>The \<open>beforeinstallprompt\<close> event object is opaque to the component: a reference.\<close>

type_synonym handle = nat

text \<open>A value read from \<open>navigator.standalone\<close>: the property is a boolean on iOS Safari
  and \<open>undefined\<close> elsewhere.\<close>

datatype jsval = JSUndefined | JSBool bool

text \<open>An exception thrown by a platform query or by a call on a storage.\<close>

datatype js_exn = TypeError | StorageError

text \<open>How the awaited \<open>deferredPrompt.userChoice\<close> settles: it resolves with a value whose
  \<open>outcome\<close> field, read as \<open>choice?.outcome\<close>, is a string or is missing, or it rejects.\<close>

datatype choice = Resolved "string option" | Rejected

datatype effect =
    PreventDefault handle
  | PromptCalled handle
  | AlertInstallInstructions

datatype button = InstallBtn | DismissBtn | AlreadyInstalledBtn

text \<open>What the component returns from its render: \<open>null\<close>, or the panel in one of its two
  variants.\<close>

datatype view = RenderNothing | IOSPanel | InstallPanel

record world =
  localStorage :: "string \<rightharpoonup> string"
  sessionStorage :: "string \<rightharpoonup> string"
  matchMediaStandalone :: "js_exn + bool"
  navigatorStandalone :: "js_exn + jsval"
  userAgent :: string
  timers :: "nat list"
  bipListeners :: "nat list"
  installedListeners :: "nat list"
  nextId :: nat
  effects :: "effect list"
  enablePWABanner :: bool
  mounted :: bool
  showBanner :: bool
  deferredPrompt :: "handle option"
  isIOS :: bool
  isStandalone :: bool
  cleanupFn :: "nat option"
  awaitingChoice :: nat
  uncaught :: "js_exn list"

text \<open>
  \<open>timers\<close> holds the ids of the pending timeouts, \<open>bipListeners\<close> and
  \<open>installedListeners\<close> the listeners attached to \<open>window\<close> for \<open>beforeinstallprompt\<close>
  and \<open>appinstalled\<close>. The closures of one run of the effect are named by the id of the
  timeout that run created; \<open>cleanupFn\<close> is the cleanup closure React holds for the
  current run. \<open>awaitingChoice\<close> counts the invocations of \<open>handleInstallClick\<close> suspended
  at their \<open>await\<close>. \<open>uncaught\<close> lists the exceptions that left a handler or the effect
  without being caught.
\<close>

subsection \<open>Constants\<close>

definition INSTALLED_KEY :: string where
  "INSTALLED_KEY = ''pwa_installed_v1''"

definition HIDE_SESSION_KEY :: string where
  "HIDE_SESSION_KEY = ''pwa_hide_session_v1''"

subsection \<open>State setters and storage\<close>

text \<open>A state setter of an unmounted component does nothing.\<close>

definition setShowBanner :: "bool \<Rightarrow> world \<Rightarrow> world" where
  "setShowBanner b w = (if mounted w then w\<lparr>showBanner := b\<rparr> else w)"

definition setDeferredPrompt :: "handle option \<Rightarrow> world \<Rightarrow> world" where
  "setDeferredPrompt h w = (if mounted w then w\<lparr>deferredPrompt := h\<rparr> else w)"

definition setIsIOS :: "bool \<Rightarrow> world \<Rightarrow> world" where
  "setIsIOS b w = (if mounted w then w\<lparr>isIOS := b\<rparr> else w)"

definition localStorage_setItem :: "string \<Rightarrow> string \<Rightarrow> world \<Rightarrow> world" where
  "localStorage_setItem k v w = w\<lparr>localStorage := (localStorage w)(k \<mapsto> v)\<rparr>"

definition sessionStorage_setItem :: "string \<Rightarrow> string \<Rightarrow> world \<Rightarrow> world" where
  "sessionStorage_setItem k v w = w\<lparr>sessionStorage := (sessionStorage w)(k \<mapsto> v)\<rparr>"

definition logEffect :: "effect \<Rightarrow> world \<Rightarrow> world" where
  "logEffect e w = w\<lparr>effects := effects w @ [e]\<rparr>"

subsection \<open>The standalone check (lines 28 to 38)\<close>

text \<open>The body of the \<open>try\<close>: \<open>||\<close> reads the legacy property only when the media query
  answered false; either read may throw.\<close>

definition isStandaloneBody :: "world \<Rightarrow> js_exn + bool" where
  "isStandaloneBody w =
     (case matchMediaStandalone w of
        Inl x \<Rightarrow> Inl x
      | Inr True \<Rightarrow> Inr True
      | Inr False \<Rightarrow>
          (case navigatorStandalone w of
             Inl x \<Rightarrow> Inl x
           | Inr v \<Rightarrow> Inr (v = JSBool True)))"

definition computeIsStandalone :: "world \<Rightarrow> bool" where
  "computeIsStandalone w =
     (case isStandaloneBody w of Inl x \<Rightarrow> False | Inr b \<Rightarrow> b)"

subsection \<open>iOS detection (lines 53 to 54)\<close>

definition lowerChar :: "char \<Rightarrow> char" where
  "lowerChar c =
     (let n = (of_char c :: nat) in if 65 \<le> n \<and> n \<le> 90 then char_of (n + 32) else c)"

definition toLowerCase :: "string \<Rightarrow> string" where
  "toLowerCase s = map lowerChar s"

fun startsWith :: "string \<Rightarrow> string \<Rightarrow> bool" where
  "startsWith s [] = True"
| "startsWith [] (n # ns) = False"
| "startsWith (c # cs) (n # ns) = (c = n \<and> startsWith cs ns)"

fun containsStr :: "string \<Rightarrow> string \<Rightarrow> bool" where
  "containsStr [] n = (n = [])"
| "containsStr (c # cs) n = (startsWith (c # cs) n \<or> containsStr cs n)"

text \<open>The regular expression \<open>/iphone|ipad|ipod/\<close> tested on the lowered user agent.\<close>

definition isIosDevice :: "string \<Rightarrow> bool" where
  "isIosDevice ua =
     (let s = toLowerCase ua
      in containsStr s ''iphone'' \<or> containsStr s ''ipad'' \<or> containsStr s ''ipod'')"

subsection \<open>The effect (lines 40 to 81)\<close>

definition handleBeforeInstallPrompt :: "handle \<Rightarrow> world \<Rightarrow> world" where
  "handleBeforeInstallPrompt e w =
     setShowBanner True (setDeferredPrompt (Some e) (logEffect (PreventDefault e) w))"

definition handleInstalled :: "world \<Rightarrow> world" where
  "handleInstalled w =
     setDeferredPrompt None (setShowBanner False (localStorage_setItem INSTALLED_KEY ''1'' w))"

text \<open>The callback of the timeout: \<open>() => setShowBanner(true)\<close>.\<close>

definition timerCallback :: "world \<Rightarrow> world" where
  "timerCallback w = setShowBanner True w"

definition runEffect :: "world \<Rightarrow> world" where
  "runEffect w =
     (if \<not> enablePWABanner w then w
      else if isStandalone w then w
      else if localStorage w INSTALLED_KEY = Some ''1'' then w
      else if sessionStorage w HIDE_SESSION_KEY = Some ''1'' then w
      else
        let w1 = setIsIOS (isIosDevice (userAgent w)) w;
            t = nextId w1
        in w1\<lparr>timers := timers w1 @ [t],
               bipListeners := bipListeners w1 @ [t],
               installedListeners := installedListeners w1 @ [t],
               nextId := Suc t,
               cleanupFn := Some t\<rparr>)"

text \<open>The closure the effect returns (lines 76 to 80), run by React before the effect runs
  again and at unmount; a run that returned at a guard left no cleanup.\<close>

definition runCleanup :: "world \<Rightarrow> world" where
  "runCleanup w =
     (case cleanupFn w of
        None \<Rightarrow> w
      | Some t \<Rightarrow>
          w\<lparr>timers := removeAll t (timers w),
            bipListeners := removeAll t (bipListeners w),
            installedListeners := removeAll t (installedListeners w),
            cleanupFn := None\<rparr>)"

subsection \<open>The click handlers (lines 83 to 116)\<close>

text \<open>\<open>handleInstallClick\<close> is \<open>async\<close>: it runs to its \<open>await\<close> and is resumed when the
  promise settles. With no captured event it only alerts.\<close>

definition handleInstallClick :: "world \<Rightarrow> world" where
  "handleInstallClick w =
     (case deferredPrompt w of
        Some h \<Rightarrow> (logEffect (PromptCalled h) w)\<lparr>awaitingChoice := Suc (awaitingChoice w)\<rparr>
      | None \<Rightarrow> logEffect AlertInstallInstructions w)"

text \<open>The rest of \<open>handleInstallClick\<close> after the \<open>await\<close>: the \<open>try\<close> body on a resolved
  promise, the empty \<open>catch\<close> on a rejected one, then the \<open>finally\<close>.\<close>

definition resumeInstallClick :: "choice \<Rightarrow> world \<Rightarrow> world" where
  "resumeInstallClick c w =
     setDeferredPrompt None
       (case c of
          Resolved outcome \<Rightarrow>
            (if outcome = Some ''accepted''
             then setShowBanner False (localStorage_setItem INSTALLED_KEY ''1'' w)
             else w)
        | Rejected \<Rightarrow> w)"

definition handleDismissForSession :: "world \<Rightarrow> world" where
  "handleDismissForSession w =
     setShowBanner False (sessionStorage_setItem HIDE_SESSION_KEY ''1'' w)"

definition handleAlreadyInstalled :: "world \<Rightarrow> world" where
  "handleAlreadyInstalled w =
     setShowBanner False (localStorage_setItem INSTALLED_KEY ''1'' w)"

subsection \<open>Rendering (lines 118 to 191)\<close>

definition render :: "world \<Rightarrow> view" where
  "render w =
     (if \<not> mounted w then RenderNothing
      else if \<not> enablePWABanner w then RenderNothing
      else if \<not> showBanner w then RenderNothing
      else if isIOS w then IOSPanel
      else InstallPanel)"

text \<open>The buttons each view carries: the close cross and "Ja instalei" in both panels,
  "Instalar App" and "Agora nao" only in the second.\<close>

fun offers :: "view \<Rightarrow> button \<Rightarrow> bool" where
  "offers RenderNothing b = False"
| "offers IOSPanel b = (b \<noteq> InstallBtn)"
| "offers InstallPanel b = True"

fun onClick :: "button \<Rightarrow> world \<Rightarrow> world" where
  "onClick InstallBtn w = handleInstallClick w"
| "onClick DismissBtn w = handleDismissForSession w"
| "onClick AlreadyInstalledBtn w = handleAlreadyInstalled w"

subsection \<open>Page loads and the step function\<close>

text \<open>
  A page load starts a fresh JavaScript context: no timeout, listener or suspended handler
  survives it and the component mounts with its initial state; the storages, the platform
  and the settings are those of the browser. The first render computes the memo, then the
  effect runs.
\<close>

definition reload :: "world \<Rightarrow> world" where
  "reload w =
     runEffect
       (w\<lparr>timers := [], bipListeners := [], installedListeners := [],
          mounted := True, showBanner := False, deferredPrompt := None, isIOS := False,
          isStandalone := computeIsStandalone w, cleanupFn := None, awaitingChoice := 0\<rparr>)"

text \<open>A fresh browsing session starts with an empty session store.\<close>

definition newSession :: "world \<Rightarrow> world" where
  "newSession w = reload (w\<lparr>sessionStorage := Map.empty\<rparr>)"

datatype event =
    TimerFires nat
  | BeforeInstallPrompt handle
  | AppInstalled
  | Click button
  | ChoiceSettled choice
  | SettingsChange bool
  | Unmount
  | Reload
  | NewSession

text \<open>
  One step of the engine. A timeout fires once; an event of \<open>window\<close> runs the listeners
  attached for it; a click reaches a handler only through a button that is rendered; a
  settled choice resumes one suspended \<open>handleInstallClick\<close>; a change of
  \<open>settings.enablePWABanner\<close> (a dependency of the effect) runs the cleanup and the effect
  again; unmounting runs the cleanup.
\<close>

fun step :: "world \<Rightarrow> event \<Rightarrow> world" where
  "step w (TimerFires t) =
     (if t \<in> set (timers w) then timerCallback (w\<lparr>timers := removeAll t (timers w)\<rparr>) else w)"
| "step w (BeforeInstallPrompt e) =
     fold (\<lambda>l. handleBeforeInstallPrompt e) (bipListeners w) w"
| "step w AppInstalled = fold (\<lambda>l. handleInstalled) (installedListeners w) w"
| "step w (Click b) = (if offers (render w) b then onClick b w else w)"
| "step w (ChoiceSettled c) =
     (if awaitingChoice w = 0 then w
      else resumeInstallClick c (w\<lparr>awaitingChoice := awaitingChoice w - 1\<rparr>))"
| "step w (SettingsChange b) =
     (if b = enablePWABanner w then w
      else if mounted w then runEffect (runCleanup (w\<lparr>enablePWABanner := b\<rparr>))
      else w\<lparr>enablePWABanner := b\<rparr>)"
| "step w Unmount = (if mounted w then (runCleanup w)\<lparr>mounted := False\<rparr> else w)"
| "step w Reload = reload w"
| "step w NewSession = newSession w"

definition run :: "world \<Rightarrow> event list \<Rightarrow> world" where
  "run w evs = fold (\<lambda>e s. step s e) evs w"

subsection \<open>Storage calls that throw\<close>

text \<open>
  \<open>localStorage\<close> and \<open>sessionStorage\<close> can refuse a call with an exception (site data
  blocked, quota exceeded). No storage call of the component stands in a \<open>try\<close> but the
  one of line 91. An exception thrown by the first statement of a handler ends the handler
  there, uncaught; line 91 is inside the \<open>try\<close> of \<open>handleInstallClick\<close>, whose empty
  \<open>catch\<close> swallows it before the \<open>finally\<close> runs. \<open>prompt()\<close> at line 86 returns a
  promise and is taken not to throw.
\<close>

definition raiseUncaught :: "js_exn \<Rightarrow> world \<Rightarrow> world" where
  "raiseUncaught x w = w\<lparr>uncaught := uncaught w @ [x]\<rparr>"

text \<open>The effect when \<open>localStorage.getItem\<close> throws at line 47: the first two guards
  still return; past them the effect ends with the exception, having scheduled and attached
  nothing and returned no cleanup.\<close>

definition runEffectThrows :: "world \<Rightarrow> world" where
  "runEffectThrows w =
     (if \<not> enablePWABanner w then w
      else if isStandalone w then w
      else raiseUncaught StorageError w)"

text \<open>\<open>handleInstalled\<close> when \<open>setItem\<close> throws at line 70, before lines 71 and 72.\<close>

definition handleInstalledThrows :: "world \<Rightarrow> world" where
  "handleInstalledThrows w = raiseUncaught StorageError w"

text \<open>The rest of \<open>handleInstallClick\<close> when \<open>setItem\<close> throws at line 91: line 92 is
  skipped, the \<open>catch\<close> swallows the exception and the \<open>finally\<close> clears the event.\<close>

definition resumeInstallClickThrows :: "choice \<Rightarrow> world \<Rightarrow> world" where
  "resumeInstallClickThrows c w =
     setDeferredPrompt None
       (case c of
          Resolved outcome \<Rightarrow> (if outcome = Some ''accepted'' then w else w)
        | Rejected \<Rightarrow> w)"

text \<open>\<open>handleDismissForSession\<close> when \<open>setItem\<close> throws at line 108, before line 109.\<close>

definition handleDismissForSessionThrows :: "world \<Rightarrow> world" where
  "handleDismissForSessionThrows w = raiseUncaught StorageError w"

text \<open>\<open>handleAlreadyInstalled\<close> when \<open>setItem\<close> throws at line 114, before line 115.\<close>

definition handleAlreadyInstalledThrows :: "world \<Rightarrow> world" where
  "handleAlreadyInstalledThrows w = raiseUncaught StorageError w"

text \<open>The synchronous part of \<open>handleInstallClick\<close> calls no storage.\<close>

fun onClickThrows :: "button \<Rightarrow> world \<Rightarrow> world" where
  "onClickThrows InstallBtn w = handleInstallClick w"
| "onClickThrows DismissBtn w = handleDismissForSessionThrows w"
| "onClickThrows AlreadyInstalledBtn w = handleAlreadyInstalledThrows w"

definition reloadThrows :: "world \<Rightarrow> world" where
  "reloadThrows w =
     runEffectThrows
       (w\<lparr>timers := [], bipListeners := [], installedListeners := [],
          mounted := True, showBanner := False, deferredPrompt := None, isIOS := False,
          isStandalone := computeIsStandalone w, cleanupFn := None, awaitingChoice := 0\<rparr>)"

text \<open>An event arrives while the storages work, or while their calls throw.\<close>

datatype input = Works event | StorageThrows event

fun stepE :: "world \<Rightarrow> input \<Rightarrow> world" where
  "stepE w (Works e) = step w e"
| "stepE w (StorageThrows AppInstalled) =
     fold (\<lambda>l. handleInstalledThrows) (installedListeners w) w"
| "stepE w (StorageThrows (Click b)) =
     (if offers (render w) b then onClickThrows b w else w)"
| "stepE w (StorageThrows (ChoiceSettled c)) =
     (if awaitingChoice w = 0 then w
      else resumeInstallClickThrows c (w\<lparr>awaitingChoice := awaitingChoice w - 1\<rparr>))"
| "stepE w (StorageThrows (SettingsChange b)) =
     (if b = enablePWABanner w then w
      else if mounted w then runEffectThrows (runCleanup (w\<lparr>enablePWABanner := b\<rparr>))
      else w\<lparr>enablePWABanner := b\<rparr>)"
| "stepE w (StorageThrows Reload) = reloadThrows w"
| "stepE w (StorageThrows NewSession) = reloadThrows (w\<lparr>sessionStorage := Map.empty\<rparr>)"
| "stepE w (StorageThrows (TimerFires t)) = step w (TimerFires t)"
| "stepE w (StorageThrows (BeforeInstallPrompt e)) = step w (BeforeInstallPrompt e)"
| "stepE w (StorageThrows Unmount) = step w Unmount"

definition runE :: "world \<Rightarrow> input list \<Rightarrow> world" where
  "runE w ins = fold (\<lambda>i s. stepE s i) ins w"

subsection \<open>Two browsers to run the engine on\<close>

text \<open>Chrome on Android in a tab, banner enabled, nothing stored.\<close>

definition chromeTab :: world where
  "chromeTab =
     \<lparr>localStorage = Map.empty, sessionStorage = Map.empty,
      matchMediaStandalone = Inr False, navigatorStandalone = Inr JSUndefined,
      userAgent = ''Mozilla/5.0 (Linux; Android 13) Chrome/120.0 Mobile'',
      timers = [], bipListeners = [], installedListeners = [], nextId = 0, effects = [],
      enablePWABanner = True, mounted = False, showBanner = False, deferredPrompt = None,
      isIOS = False, isStandalone = False, cleanupFn = None, awaitingChoice = 0,
      uncaught = []\<rparr>"

text \<open>Safari on an iPhone in a tab.\<close>

definition safariTab :: world where
  "safariTab =
     chromeTab\<lparr>navigatorStandalone := Inr (JSBool False),
       userAgent := ''Mozilla/5.0 (iPhone; CPU iPhone OS 17_0 like Mac OS X) Safari''\<rparr>"

subsection \<open>The invariant of the effect's resources\<close>

text \<open>
  At any moment the timeouts and listeners in the browser are those of the current run of
  the effect: none when the run returned at a guard, and otherwise both listeners and at
  most the one timeout of a mounted, enabled component.
\<close>

definition engineInv :: "world \<Rightarrow> bool" where
  "engineInv w =
     (case cleanupFn w of
        None \<Rightarrow> timers w = [] \<and> bipListeners w = [] \<and> installedListeners w = []
      | Some t \<Rightarrow>
          (timers w = [t] \<or> timers w = []) \<and> bipListeners w = [t] \<and>
          installedListeners w = [t] \<and> mounted w \<and> enablePWABanner w)"

subsection \<open>States in which the effect holds nothing\<close>

text \<open>The conjunction of the four guards of the effect: any of them makes it return
  before it schedules or attaches anything.\<close>

definition suppressed :: "world \<Rightarrow> bool" where
  "suppressed w =
     (\<not> enablePWABanner w \<or> isStandalone w \<or> localStorage w INSTALLED_KEY = Some ''1'' \<or>
      sessionStorage w HIDE_SESSION_KEY = Some ''1'')"

text \<open>Nothing is shown, scheduled, attached or suspended.\<close>

definition quiescent :: "world \<Rightarrow> bool" where
  "quiescent w =
     (\<not> showBanner w \<and> timers w = [] \<and> bipListeners w = [] \<and> installedListeners w = [] \<and>
      cleanupFn w = None \<and> awaitingChoice w = 0)"

subsection \<open>Further browsers and states to run the engine on\<close>

text \<open>The same browser with the banner disabled in the settings.\<close>

definition disabledTab :: world where
  "disabledTab = chromeTab\<lparr>enablePWABanner := False\<rparr>"

text \<open>The site opened from the iOS home screen: \<open>navigator.standalone\<close> is true. In the
  second browser \<open>window.matchMedia\<close> is missing, so that calling it throws.\<close>

definition homeScreenApp :: world where
  "homeScreenApp = safariTab\<lparr>navigatorStandalone := Inr (JSBool True)\<rparr>"

definition homeScreenNoMatchMedia :: world where
  "homeScreenNoMatchMedia = homeScreenApp\<lparr>matchMediaStandalone := Inl TypeError\<rparr>"

text \<open>Chrome in a tab after the user closed the banner in this session; after the
  installed marker was written; and on a page load once the timeout has shown the banner.\<close>

definition dismissedTab :: world where
  "dismissedTab = chromeTab\<lparr>sessionStorage := [HIDE_SESSION_KEY \<mapsto> ''1'']\<rparr>"

definition installedTab :: world where
  "installedTab = chromeTab\<lparr>localStorage := [INSTALLED_KEY \<mapsto> ''1'']\<rparr>"

definition bannerShown :: world where
  "bannerShown = run (reload chromeTab) [TimerFires 0]"

text \<open>Chrome in a tab once \<open>beforeinstallprompt\<close> has arrived; the same with one click on
  "Instalar App" waiting for the user's choice; and a browser where reading
  \<open>navigator.standalone\<close> throws.\<close>

definition promptCaptured :: world where
  "promptCaptured = run (reload chromeTab) [BeforeInstallPrompt 7]"

definition choicePending :: world where
  "choicePending = run promptCaptured [Click InstallBtn]"

text \<open>The same click once the user has accepted the install.\<close>

definition installAccepted :: world where
  "installAccepted =
     run promptCaptured [Click InstallBtn, ChoiceSettled (Resolved (Some ''accepted''))]"

definition navigatorThrows :: world where
  "navigatorThrows = chromeTab\<lparr>navigatorStandalone := Inl TypeError\<rparr>"

section \<open>Lemmas on the engine\<close>

lemmas setter_defs = setShowBanner_def setDeferredPrompt_def setIsIOS_def
  localStorage_setItem_def sessionStorage_setItem_def logEffect_def

lemmas handler_defs = handleBeforeInstallPrompt_def handleInstalled_def timerCallback_def
  handleInstallClick_def resumeInstallClick_def handleDismissForSession_def
  handleAlreadyInstalled_def

lemma fold_const_preserves:
  assumes "\<And>s. P s \<Longrightarrow> P (h s)" and "P s"
  shows "P (fold (\<lambda>l. h) ls s)"
  using assms(2) by (induction ls arbitrary: s) (auto intro: assms(1))

lemma engineInv_runEffect_clean:
  "cleanupFn w = None \<Longrightarrow> timers w = [] \<Longrightarrow> bipListeners w = [] \<Longrightarrow>
   installedListeners w = [] \<Longrightarrow> mounted w \<Longrightarrow> engineInv (runEffect w)"
  by (simp add: engineInv_def runEffect_def setter_defs Let_def)

lemma engineInv_reload: "engineInv (reload w)"
  unfolding reload_def by (rule engineInv_runEffect_clean) simp_all

lemma engineInv_handlers:
  assumes "engineInv w"
  shows "engineInv (handleBeforeInstallPrompt e w)"
    and "engineInv (handleInstalled w)"
    and "engineInv (handleInstallClick w)"
    and "engineInv (resumeInstallClick c w)"
    and "engineInv (handleDismissForSession w)"
    and "engineInv (handleAlreadyInstalled w)"
  using assms
  by (auto simp: engineInv_def handler_defs setter_defs split: option.splits choice.splits)

lemma engineInv_step: "engineInv w \<Longrightarrow> engineInv (step w e)"
proof (cases e)
  case (TimerFires t)
  assume "engineInv w"
  then show ?thesis using TimerFires
    by (auto simp: engineInv_def timerCallback_def setter_defs split: option.splits)
next
  case (BeforeInstallPrompt h)
  assume "engineInv w"
  then show ?thesis using BeforeInstallPrompt
    by (auto intro: fold_const_preserves engineInv_handlers)
next
  case AppInstalled
  assume "engineInv w"
  then show ?thesis using AppInstalled
    by (auto intro: fold_const_preserves engineInv_handlers)
next
  case (Click b)
  assume "engineInv w"
  then show ?thesis using Click
    by (cases b) (auto intro: engineInv_handlers)
next
  case (ChoiceSettled c)
  assume "engineInv w"
  then have "engineInv (w\<lparr>awaitingChoice := awaitingChoice w - 1\<rparr>)"
    by (simp add: engineInv_def split: option.splits)
  then show ?thesis using ChoiceSettled \<open>engineInv w\<close>
    by (auto intro: engineInv_handlers)
next
  case (SettingsChange b)
  assume a: "engineInv w"
  show ?thesis
  proof (cases "b \<noteq> enablePWABanner w \<and> mounted w")
    case True
    have "engineInv (runEffect (runCleanup (w\<lparr>enablePWABanner := b\<rparr>)))"
      using a True
      by (intro engineInv_runEffect_clean)
         (auto simp: engineInv_def runCleanup_def split: option.splits)
    then show ?thesis using SettingsChange True by simp
  next
    case False
    then show ?thesis using SettingsChange a
      by (auto simp: engineInv_def split: option.splits)
  qed
next
  case Unmount
  assume "engineInv w"
  then show ?thesis using Unmount
    by (auto simp: engineInv_def runCleanup_def split: option.splits)
next
  case Reload
  then show ?thesis by (simp add: engineInv_reload)
next
  case NewSession
  then show ?thesis by (simp add: newSession_def engineInv_reload)
qed

lemma engineInv_run: "engineInv w \<Longrightarrow> engineInv (run w evs)"
  unfolding run_def by (induction evs arbitrary: w) (simp_all add: engineInv_step)

lemma engineInv_reachable: "engineInv (run (reload w0) evs)"
  by (simp add: engineInv_run engineInv_reload)

lemma runEffect_suppressed: "suppressed w \<Longrightarrow> runEffect w = w"
  by (auto simp: suppressed_def runEffect_def)

lemma quiescent_render: "quiescent w \<Longrightarrow> render w = RenderNothing"
  by (simp add: quiescent_def render_def)

lemma runCleanup_quiescent: "quiescent w \<Longrightarrow> runCleanup w = w"
  by (simp add: quiescent_def runCleanup_def)

lemma quiescent_step_plain:
  assumes "quiescent w"
  shows "step w (TimerFires t) = w" and "step w (BeforeInstallPrompt h) = w"
    and "step w AppInstalled = w" and "step w (Click b) = w"
    and "step w (ChoiceSettled c) = w"
    and "step w Unmount = (if mounted w then w\<lparr>mounted := False\<rparr> else w)"
  using assms by (simp_all add: quiescent_render runCleanup_quiescent) (simp_all add: quiescent_def)

lemma quiescent_step_SettingsChange:
  assumes "quiescent w"
  shows "step w (SettingsChange b) =
         (if b = enablePWABanner w then w
          else if mounted w then runEffect (w\<lparr>enablePWABanner := b\<rparr>)
          else w\<lparr>enablePWABanner := b\<rparr>)"
  using assms by (simp add: quiescent_def runCleanup_def)

text \<open>The state in which a page load leaves the component when the effect returns at a
  guard.\<close>

lemma reload_suppressed:
  assumes "suppressed (w\<lparr>isStandalone := computeIsStandalone w\<rparr>)"
  shows "reload w =
         w\<lparr>timers := [], bipListeners := [], installedListeners := [],
           mounted := True, showBanner := False, deferredPrompt := None, isIOS := False,
           isStandalone := computeIsStandalone w, cleanupFn := None, awaitingChoice := 0\<rparr>"
  unfolding reload_def
  by (rule runEffect_suppressed) (use assms in \<open>simp add: suppressed_def\<close>)

lemma reload_suppressed_quiescent:
  assumes "suppressed (w\<lparr>isStandalone := computeIsStandalone w\<rparr>)"
  shows "quiescent (reload w)"
  by (simp add: reload_suppressed [OF assms] quiescent_def)


lemma disabled_step:
  assumes "quiescent w" and "\<not> enablePWABanner w" and "e \<noteq> SettingsChange True"
  shows "quiescent (step w e) \<and> \<not> enablePWABanner (step w e) \<and>
         effects (step w e) = effects w \<and> localStorage (step w e) = localStorage w"
proof (cases e)
  case (SettingsChange b)
  with assms(2,3) have "b = enablePWABanner w" by auto
  with SettingsChange assms(1,2) show ?thesis by simp
next
  case Reload
  have s: "suppressed (w\<lparr>isStandalone := computeIsStandalone w\<rparr>)"
    using assms(2) by (simp add: suppressed_def)
  show ?thesis using Reload assms(2)
    by (simp add: reload_suppressed_quiescent [OF s]) (simp add: reload_suppressed [OF s])
next
  case NewSession
  let ?w = "w\<lparr>sessionStorage := Map.empty\<rparr>"
  have s: "suppressed (?w\<lparr>isStandalone := computeIsStandalone ?w\<rparr>)"
    using assms(2) by (simp add: suppressed_def)
  show ?thesis using NewSession assms(2)
    by (simp add: newSession_def reload_suppressed_quiescent [OF s])
       (simp add: reload_suppressed [OF s])
qed (use assms in \<open>simp_all add: quiescent_step_plain del: step.simps\<close>,
     simp_all add: quiescent_def)

lemma disabled_run:
  assumes "quiescent w" and "\<not> enablePWABanner w" and "SettingsChange True \<notin> set evs"
  shows "quiescent (run w evs) \<and> \<not> enablePWABanner (run w evs) \<and>
         effects (run w evs) = effects w \<and> localStorage (run w evs) = localStorage w"
  using assms
proof (induction evs arbitrary: w)
  case Nil
  then show ?case by (simp add: run_def)
next
  case (Cons e evs)
  from Cons.prems have e: "e \<noteq> SettingsChange True" by auto
  note st = disabled_step [OF Cons.prems(1,2) e]
  have "SettingsChange True \<notin> set evs" using Cons.prems(3) by simp
  with Cons.IH [of "step w e"] st
  show ?case by (simp add: run_def)
qed

lemmas standalone_defs = computeIsStandalone_def isStandaloneBody_def

lemma computeIsStandalone_platform:
  assumes "matchMediaStandalone v = matchMediaStandalone w"
    and "navigatorStandalone v = navigatorStandalone w"
  shows "computeIsStandalone v = computeIsStandalone w"
  using assms by (simp add: standalone_defs split: sum.splits bool.splits)

lemma standalone_step:
  assumes "quiescent w" and "isStandalone w" and "computeIsStandalone w"
  shows "quiescent (step w e) \<and> isStandalone (step w e) \<and> computeIsStandalone (step w e)"
proof (cases e)
  case (SettingsChange b)
  let ?v = "w\<lparr>enablePWABanner := b\<rparr>"
  have "suppressed ?v" using assms(2) by (simp add: suppressed_def)
  then have "runEffect ?v = ?v" by (rule runEffect_suppressed)
  moreover have "step w e =
      (if b = enablePWABanner w then w else if mounted w then runEffect ?v else ?v)"
    unfolding SettingsChange by (rule quiescent_step_SettingsChange [OF assms(1)])
  ultimately have "step w e = w \<or> step w e = ?v" by metis
  moreover have "quiescent ?v" "isStandalone ?v" using assms(1,2) by (simp_all add: quiescent_def)
  moreover have "computeIsStandalone ?v"
    using assms(3) computeIsStandalone_platform [of ?v w] by simp
  ultimately show ?thesis using assms by auto
next
  case Reload
  have s: "suppressed (w\<lparr>isStandalone := computeIsStandalone w\<rparr>)"
    using assms(3) by (simp add: suppressed_def)
  have "computeIsStandalone (reload w) = computeIsStandalone w"
    by (rule computeIsStandalone_platform) (simp_all add: reload_suppressed [OF s])
  then show ?thesis using Reload assms(3)
    by (simp add: reload_suppressed_quiescent [OF s]) (simp add: reload_suppressed [OF s])
next
  case NewSession
  let ?w = "w\<lparr>sessionStorage := Map.empty\<rparr>"
  have c: "computeIsStandalone ?w"
    using assms(3) computeIsStandalone_platform [of ?w w] by simp
  then have s: "suppressed (?w\<lparr>isStandalone := computeIsStandalone ?w\<rparr>)"
    by (simp add: suppressed_def)
  have "computeIsStandalone (reload ?w) = computeIsStandalone ?w"
    by (rule computeIsStandalone_platform) (simp_all add: reload_suppressed [OF s])
  then show ?thesis using NewSession c
    by (simp add: newSession_def reload_suppressed_quiescent [OF s])
       (simp add: reload_suppressed [OF s])
next
  case Unmount
  let ?v = "w\<lparr>mounted := False\<rparr>"
  have "step w e = w \<or> step w e = ?v"
    using Unmount by (simp add: quiescent_step_plain [OF assms(1)] del: step.simps)
  moreover have "quiescent ?v" "isStandalone ?v" using assms(1,2) by (simp_all add: quiescent_def)
  moreover have "computeIsStandalone ?v"
    using assms(3) computeIsStandalone_platform [of ?v w] by simp
  ultimately show ?thesis using assms by auto
qed (use assms in \<open>simp_all add: quiescent_step_plain del: step.simps\<close>)

lemma standalone_run:
  assumes "quiescent w" and "isStandalone w" and "computeIsStandalone w"
  shows "quiescent (run w evs)"
  using assms
proof (induction evs arbitrary: w)
  case Nil
  then show ?case by (simp add: run_def)
next
  case (Cons e evs)
  from standalone_step [OF Cons.prems, of e] Cons.IH [of "step w e"]
  show ?case by (simp add: run_def)
qed

lemma dismissed_step:
  assumes "quiescent w" and "sessionStorage w HIDE_SESSION_KEY = Some ''1''"
    and "e \<noteq> NewSession"
  shows "quiescent (step w e) \<and> sessionStorage (step w e) HIDE_SESSION_KEY = Some ''1''"
proof (cases e)
  case (SettingsChange b)
  let ?v = "w\<lparr>enablePWABanner := b\<rparr>"
  have "suppressed ?v" using assms(2) by (simp add: suppressed_def)
  then have "runEffect ?v = ?v" by (rule runEffect_suppressed)
  moreover have "step w e =
      (if b = enablePWABanner w then w else if mounted w then runEffect ?v else ?v)"
    unfolding SettingsChange by (rule quiescent_step_SettingsChange [OF assms(1)])
  ultimately have "step w e = w \<or> step w e = ?v" by metis
  moreover have "quiescent ?v" using assms(1) by (simp add: quiescent_def)
  ultimately show ?thesis using assms by auto
next
  case Reload
  have s: "suppressed (w\<lparr>isStandalone := computeIsStandalone w\<rparr>)"
    using assms(2) by (simp add: suppressed_def)
  show ?thesis using Reload assms(2)
    by (simp add: reload_suppressed_quiescent [OF s]) (simp add: reload_suppressed [OF s])
next
  case NewSession
  with assms(3) show ?thesis by simp
next
  case Unmount
  let ?v = "w\<lparr>mounted := False\<rparr>"
  have "step w e = w \<or> step w e = ?v"
    using Unmount by (simp add: quiescent_step_plain [OF assms(1)] del: step.simps)
  moreover have "quiescent ?v" using assms(1) by (simp add: quiescent_def)
  ultimately show ?thesis using assms by auto
qed (use assms in \<open>simp_all add: quiescent_step_plain del: step.simps\<close>)

lemma dismissed_run:
  assumes "quiescent w" and "sessionStorage w HIDE_SESSION_KEY = Some ''1''"
    and "NewSession \<notin> set evs"
  shows "quiescent (run w evs) \<and> sessionStorage (run w evs) HIDE_SESSION_KEY = Some ''1''"
  using assms
proof (induction evs arbitrary: w)
  case Nil
  then show ?case by (simp add: run_def)
next
  case (Cons e evs)
  from Cons.prems have e: "e \<noteq> NewSession" by auto
  note st = dismissed_step [OF Cons.prems(1,2) e]
  have "NewSession \<notin> set evs" using Cons.prems(3) by simp
  with Cons.IH [of "step w e"] st
  show ?case by (simp add: run_def)
qed

lemma installed_step:
  assumes "quiescent w" and "localStorage w INSTALLED_KEY = Some ''1''"
  shows "quiescent (step w e) \<and> localStorage (step w e) INSTALLED_KEY = Some ''1''"
proof (cases e)
  case (SettingsChange b)
  let ?v = "w\<lparr>enablePWABanner := b\<rparr>"
  have "suppressed ?v" using assms(2) by (simp add: suppressed_def)
  then have "runEffect ?v = ?v" by (rule runEffect_suppressed)
  moreover have "step w e =
      (if b = enablePWABanner w then w else if mounted w then runEffect ?v else ?v)"
    unfolding SettingsChange by (rule quiescent_step_SettingsChange [OF assms(1)])
  ultimately have "step w e = w \<or> step w e = ?v" by metis
  moreover have "quiescent ?v" using assms(1) by (simp add: quiescent_def)
  ultimately show ?thesis using assms by auto
next
  case Reload
  have s: "suppressed (w\<lparr>isStandalone := computeIsStandalone w\<rparr>)"
    using assms(2) by (simp add: suppressed_def)
  show ?thesis using Reload assms(2)
    by (simp add: reload_suppressed_quiescent [OF s]) (simp add: reload_suppressed [OF s])
next
  case NewSession
  let ?w = "w\<lparr>sessionStorage := Map.empty\<rparr>"
  have s: "suppressed (?w\<lparr>isStandalone := computeIsStandalone ?w\<rparr>)"
    using assms(2) by (simp add: suppressed_def)
  show ?thesis using NewSession assms(2)
    by (simp add: newSession_def reload_suppressed_quiescent [OF s])
       (simp add: reload_suppressed [OF s])
next
  case Unmount
  let ?v = "w\<lparr>mounted := False\<rparr>"
  have "step w e = w \<or> step w e = ?v"
    using Unmount by (simp add: quiescent_step_plain [OF assms(1)] del: step.simps)
  moreover have "quiescent ?v" using assms(1) by (simp add: quiescent_def)
  ultimately show ?thesis using assms by auto
qed (use assms in \<open>simp_all add: quiescent_step_plain del: step.simps\<close>)

lemma installed_run:
  assumes "quiescent w" and "localStorage w INSTALLED_KEY = Some ''1''"
  shows "quiescent (run w evs) \<and> localStorage (run w evs) INSTALLED_KEY = Some ''1''"
  using assms
proof (induction evs arbitrary: w)
  case Nil
  then show ?case by (simp add: run_def)
next
  case (Cons e evs)
  from installed_step [OF Cons.prems, of e] Cons.IH [of "step w e"]
  show ?case by (simp add: run_def)
qed


lemma reload_eligible:
  assumes "enablePWABanner w" and "\<not> computeIsStandalone w"
    and "localStorage w INSTALLED_KEY \<noteq> Some ''1''"
    and "sessionStorage w HIDE_SESSION_KEY \<noteq> Some ''1''"
  shows "reload w =
         w\<lparr>timers := [nextId w], bipListeners := [nextId w],
           installedListeners := [nextId w], nextId := Suc (nextId w), mounted := True,
           showBanner := False, deferredPrompt := None,
           isIOS := isIosDevice (userAgent w), isStandalone := False,
           cleanupFn := Some (nextId w), awaitingChoice := 0\<rparr>"
  using assms by (simp add: reload_def runEffect_def setter_defs Let_def)

lemma detached_stale:
  assumes "timers u = []" and "bipListeners u = []" and "installedListeners u = []"
  shows "step u (TimerFires t) = u" and "step u (BeforeInstallPrompt h) = u"
    and "step u AppInstalled = u"
  using assms by simp_all

lemma runCleanup_detaches:
  assumes "engineInv w"
  shows "timers (runCleanup w) = []" and "bipListeners (runCleanup w) = []"
    and "installedListeners (runCleanup w) = []" and "cleanupFn (runCleanup w) = None"
  using assms by (auto simp: engineInv_def runCleanup_def split: option.splits)

lemma uncaught_reload: "uncaught (reload w) = uncaught w"
  by (simp add: reload_def runEffect_def setter_defs Let_def)

section \<open>The claims\<close>

subsection \<open>C1: the installed marker and the pending timeout\<close>

text \<open>
  C1 says that once the durable installed marker is set, \<open>showBanner\<close> never becomes true
  again, and in particular that no timeout still pending when \<open>handleInstalled\<close> runs can
  reveal the banner. \<open>handleInstalled\<close> does not clear the timeout. On Chrome in a tab,
  with the banner enabled and nothing stored, \<open>appinstalled\<close> arrives before the 1200 ms
  have passed: the marker is written, nothing is rendered and timeout 0 is still pending;
  when it fires the marker is still set and the install panel is rendered. The listener
  of \<open>beforeinstallprompt\<close> does the same after "Ja instalei": the banner shown by the
  timeout is closed with the marker written, and the event opens it again.
\<close>

theorem C1_pending_timer_reveals_after_install:
  "localStorage (run (reload chromeTab) [AppInstalled]) INSTALLED_KEY = Some ''1'' \<and>
   render (run (reload chromeTab) [AppInstalled]) = RenderNothing \<and>
   timers (run (reload chromeTab) [AppInstalled]) = [0] \<and>
   localStorage (run (reload chromeTab) [AppInstalled, TimerFires 0]) INSTALLED_KEY = Some ''1'' \<and>
   showBanner (run (reload chromeTab) [AppInstalled, TimerFires 0]) \<and>
   render (run (reload chromeTab) [AppInstalled, TimerFires 0]) = InstallPanel \<and>
   localStorage (run bannerShown [Click AlreadyInstalledBtn]) INSTALLED_KEY = Some ''1'' \<and>
   render (run bannerShown [Click AlreadyInstalledBtn]) = RenderNothing \<and>
   localStorage (run bannerShown [Click AlreadyInstalledBtn, BeforeInstallPrompt 7])
     INSTALLED_KEY = Some ''1'' \<and>
   render (run bannerShown [Click AlreadyInstalledBtn, BeforeInstallPrompt 7]) = InstallPanel"
  by code_simp

subsection \<open>C2: the install-availability event\<close>

text \<open>
  C2 says that the handler of \<open>beforeinstallprompt\<close> calls \<open>preventDefault\<close>, captures the
  event, reveals the banner at once and cancels the pending timeout. On Chrome in a tab the
  first three happen, and the timeout is not cancelled: timeout 0 is still pending after
  the event. The user then closes the banner, which writes the session flag and renders
  nothing; the timeout is still pending, and when it fires the install panel is rendered
  again with the session flag set.
\<close>

theorem C2_handler_leaves_timer_pending:
  "effects (run (reload chromeTab) [BeforeInstallPrompt 7]) = [PreventDefault 7] \<and>
   deferredPrompt (run (reload chromeTab) [BeforeInstallPrompt 7]) = Some 7 \<and>
   render (run (reload chromeTab) [BeforeInstallPrompt 7]) = InstallPanel \<and>
   timers (run (reload chromeTab) [BeforeInstallPrompt 7]) = [0] \<and>
   render (run (reload chromeTab) [BeforeInstallPrompt 7, Click DismissBtn]) = RenderNothing \<and>
   sessionStorage (run (reload chromeTab) [BeforeInstallPrompt 7, Click DismissBtn])
     HIDE_SESSION_KEY = Some ''1'' \<and>
   timers (run (reload chromeTab) [BeforeInstallPrompt 7, Click DismissBtn]) = [0] \<and>
   sessionStorage (run (reload chromeTab) [BeforeInstallPrompt 7, Click DismissBtn, TimerFires 0])
     HIDE_SESSION_KEY = Some ''1'' \<and>
   render (run (reload chromeTab) [BeforeInstallPrompt 7, Click DismissBtn, TimerFires 0])
     = InstallPanel"
  by code_simp

subsection \<open>C3: the banner disabled in the settings\<close>

text \<open>
  C3: while \<open>settings.enablePWABanner\<close> is false the banner is never revealed, whatever
  the stored flags, the platform and the events. The effect does no work (it returns its
  state as it found it) and the render returns nothing; and from a page load with the
  setting false, along any events that do not switch the setting on, nothing is rendered,
  \<open>showBanner\<close> stays false, no timeout or listener exists, no browser call is made and
  the durable store is not written.
\<close>

theorem C3_disabled_never_reveals:
  assumes "\<not> enablePWABanner w0" and "SettingsChange True \<notin> set evs"
  shows "runEffect w0 = w0 \<and> render w0 = RenderNothing \<and>
         (let w = run (reload w0) evs
          in render w = RenderNothing \<and> \<not> showBanner w \<and> timers w = [] \<and>
             bipListeners w = [] \<and> installedListeners w = [] \<and>
             effects w = effects w0 \<and> localStorage w = localStorage w0)"
proof -
  have s: "suppressed (w0\<lparr>isStandalone := computeIsStandalone w0\<rparr>)"
    using assms(1) by (simp add: suppressed_def)
  have q: "quiescent (reload w0)" by (rule reload_suppressed_quiescent [OF s])
  have d: "\<not> enablePWABanner (reload w0)" "effects (reload w0) = effects w0"
    "localStorage (reload w0) = localStorage w0"
    using assms(1) by (simp_all add: reload_suppressed [OF s])
  note r = disabled_run [OF q d(1) assms(2)]
  have "runEffect w0 = w0" using assms(1) by (simp add: runEffect_def)
  moreover have "render w0 = RenderNothing" using assms(1) by (simp add: render_def)
  moreover have "render (run (reload w0) evs) = RenderNothing"
    using r by (simp add: quiescent_render)
  ultimately show ?thesis using r d(2,3) by (simp add: quiescent_def Let_def)
qed

theorem C3_disabled_never_reveals_witness:
  "\<not> enablePWABanner disabledTab \<and>
   runEffect disabledTab = disabledTab \<and> render disabledTab = RenderNothing \<and>
   (let w = run (reload disabledTab)
              [TimerFires 0, BeforeInstallPrompt 7, AppInstalled, Click InstallBtn,
               SettingsChange False, Reload, TimerFires 0]
    in render w = RenderNothing \<and> \<not> showBanner w \<and> timers w = [] \<and>
       bipListeners w = [] \<and> installedListeners w = [] \<and>
       effects w = effects disabledTab \<and> localStorage w = localStorage disabledTab)"
proof -
  have h1: "\<not> enablePWABanner disabledTab" by (simp add: disabledTab_def)
  have h2: "SettingsChange True \<notin> set [TimerFires 0, BeforeInstallPrompt 7, AppInstalled,
              Click InstallBtn, SettingsChange False, Reload, TimerFires 0]" by simp
  show ?thesis using h1 C3_disabled_never_reveals [OF h1 h2] by simp
qed

subsection \<open>C4: standalone display mode\<close>

text \<open>
  C4 as stated covers every page load on which the media query or the legacy property
  reports standalone mode. Where the media query throws, the \<open>catch\<close> makes the check
  false without the legacy property being read: with \<open>navigator.standalone\<close> true the
  banner is still revealed when the timeout fires.
\<close>

theorem C4_legacy_property_ignored_when_query_throws:
  "enablePWABanner homeScreenNoMatchMedia \<and>
   navigatorStandalone homeScreenNoMatchMedia = Inr (JSBool True) \<and>
   render (run (reload homeScreenNoMatchMedia) [TimerFires 0]) = IOSPanel"
  by code_simp

text \<open>
  C4, amended: on every page load on which the media query does not throw and the media
  query or the legacy property reports standalone mode, the banner is never revealed,
  whatever the settings, the stored flags and the events (further page loads of the same
  browser included): nothing is rendered, \<open>showBanner\<close> stays false and no timeout or
  listener exists.
\<close>

theorem C4_standalone_never_reveals:
  assumes "\<not> isl (matchMediaStandalone w0)"
    and "matchMediaStandalone w0 = Inr True \<or> navigatorStandalone w0 = Inr (JSBool True)"
  shows "let w = run (reload w0) evs
         in render w = RenderNothing \<and> \<not> showBanner w \<and> timers w = [] \<and>
            bipListeners w = [] \<and> installedListeners w = []"
proof -
  have c: "computeIsStandalone w0"
    using assms by (auto simp: standalone_defs split: sum.splits bool.splits)
  then have s: "suppressed (w0\<lparr>isStandalone := computeIsStandalone w0\<rparr>)"
    by (simp add: suppressed_def)
  have q: "quiescent (reload w0)" by (rule reload_suppressed_quiescent [OF s])
  have "computeIsStandalone (reload w0) = computeIsStandalone w0"
    by (rule computeIsStandalone_platform) (simp_all add: reload_suppressed [OF s])
  then have i: "isStandalone (reload w0)" "computeIsStandalone (reload w0)"
    using c by (simp_all add: reload_suppressed [OF s])
  have "quiescent (run (reload w0) evs)" by (rule standalone_run [OF q i])
  then show ?thesis by (simp add: quiescent_render) (simp add: quiescent_def)
qed

theorem C4_standalone_never_reveals_witness:
  "\<not> isl (matchMediaStandalone homeScreenApp) \<and>
   navigatorStandalone homeScreenApp = Inr (JSBool True) \<and>
   enablePWABanner homeScreenApp \<and>
   (let w = run (reload homeScreenApp)
              [TimerFires 0, BeforeInstallPrompt 7, Click InstallBtn, SettingsChange False,
               SettingsChange True, TimerFires 1, Reload, TimerFires 2]
    in render w = RenderNothing \<and> \<not> showBanner w \<and> timers w = [] \<and>
       bipListeners w = [] \<and> installedListeners w = [])"
proof -
  have h1: "\<not> isl (matchMediaStandalone homeScreenApp)"
    by (simp add: homeScreenApp_def safariTab_def chromeTab_def)
  have h2: "navigatorStandalone homeScreenApp = Inr (JSBool True)"
    by (simp add: homeScreenApp_def)
  have h3: "enablePWABanner homeScreenApp"
    by (simp add: homeScreenApp_def safariTab_def chromeTab_def)
  show ?thesis using h1 h2 h3 C4_standalone_never_reveals [OF h1 disjI2 [OF h2]] by simp
qed

subsection \<open>C5: dismissal for the session\<close>

text \<open>
  C5: when \<open>pwa_hide_session_v1\<close> is \<open>"1"\<close> in the session store at a page load, the
  banner is not revealed on that load nor on any later load of the same session (any events
  but the start of a new session): nothing is rendered and the flag stays. A new session
  starts with the session store empty, and then, if the banner is enabled, the page is not
  standalone and the installed marker is not set, the effect schedules its timeout and
  attaches its listeners, and the banner is rendered when the timeout fires or the
  install-availability event arrives.
\<close>

theorem C5_session_dismissal:
  "(sessionStorage w0 HIDE_SESSION_KEY = Some ''1'' \<and> NewSession \<notin> set evs \<longrightarrow>
      (let w = run (reload w0) evs
       in render w = RenderNothing \<and> \<not> showBanner w \<and> timers w = [] \<and>
          bipListeners w = [] \<and> sessionStorage w HIDE_SESSION_KEY = Some ''1'')) \<and>
   (enablePWABanner w1 \<and> \<not> computeIsStandalone w1 \<and>
    localStorage w1 INSTALLED_KEY \<noteq> Some ''1'' \<longrightarrow>
      (let w = newSession w1; t = nextId w1
       in sessionStorage w HIDE_SESSION_KEY = None \<and> timers w = [t] \<and>
          render w = RenderNothing \<and>
          render (step w (TimerFires t)) \<noteq> RenderNothing \<and>
          render (step w (BeforeInstallPrompt h)) \<noteq> RenderNothing))"
proof (intro conjI impI)
  assume a: "sessionStorage w0 HIDE_SESSION_KEY = Some ''1'' \<and> NewSession \<notin> set evs"
  then have s: "suppressed (w0\<lparr>isStandalone := computeIsStandalone w0\<rparr>)"
    by (simp add: suppressed_def)
  have q: "quiescent (reload w0)" by (rule reload_suppressed_quiescent [OF s])
  have f: "sessionStorage (reload w0) HIDE_SESSION_KEY = Some ''1''"
    using a by (simp add: reload_suppressed [OF s])
  from a have n: "NewSession \<notin> set evs" by simp
  note r = dismissed_run [OF q f n]
  then have "render (run (reload w0) evs) = RenderNothing" by (simp add: quiescent_render)
  then show "let w = run (reload w0) evs
       in render w = RenderNothing \<and> \<not> showBanner w \<and> timers w = [] \<and>
          bipListeners w = [] \<and> sessionStorage w HIDE_SESSION_KEY = Some ''1''"
    using r by (simp add: quiescent_def)
next
  assume a: "enablePWABanner w1 \<and> \<not> computeIsStandalone w1 \<and>
    localStorage w1 INSTALLED_KEY \<noteq> Some ''1''"
  let ?v = "w1\<lparr>sessionStorage := Map.empty\<rparr>"
  have c: "computeIsStandalone ?v = computeIsStandalone w1"
    by (rule computeIsStandalone_platform) simp_all
  have e: "newSession w1 =
         ?v\<lparr>timers := [nextId w1], bipListeners := [nextId w1],
           installedListeners := [nextId w1], nextId := Suc (nextId w1), mounted := True,
           showBanner := False, deferredPrompt := None,
           isIOS := isIosDevice (userAgent w1), isStandalone := False,
           cleanupFn := Some (nextId w1), awaitingChoice := 0\<rparr>"
    unfolding newSession_def using a c reload_eligible [of ?v] by simp
  show "let w = newSession w1; t = nextId w1
       in sessionStorage w HIDE_SESSION_KEY = None \<and> timers w = [t] \<and>
          render w = RenderNothing \<and>
          render (step w (TimerFires t)) \<noteq> RenderNothing \<and>
          render (step w (BeforeInstallPrompt h)) \<noteq> RenderNothing"
    using a unfolding Let_def e
    by (simp add: render_def timerCallback_def handleBeforeInstallPrompt_def setter_defs)
qed

theorem C5_session_dismissal_witness:
  "sessionStorage dismissedTab HIDE_SESSION_KEY = Some ''1'' \<and>
   (let w = run (reload dismissedTab)
              [TimerFires 0, BeforeInstallPrompt 7, Reload, SettingsChange False,
               SettingsChange True, TimerFires 0]
    in render w = RenderNothing \<and> \<not> showBanner w \<and> timers w = [] \<and>
       bipListeners w = [] \<and> sessionStorage w HIDE_SESSION_KEY = Some ''1'') \<and>
   (let w = newSession dismissedTab; t = nextId dismissedTab
    in sessionStorage w HIDE_SESSION_KEY = None \<and> timers w = [t] \<and>
       render w = RenderNothing \<and>
       render (step w (TimerFires t)) \<noteq> RenderNothing \<and>
       render (step w (BeforeInstallPrompt 7)) \<noteq> RenderNothing)"
proof -
  note c = C5_session_dismissal [of dismissedTab
      "[TimerFires 0, BeforeInstallPrompt 7, Reload, SettingsChange False,
        SettingsChange True, TimerFires 0]" dismissedTab 7]
  have h1: "sessionStorage dismissedTab HIDE_SESSION_KEY = Some ''1''"
    by (simp add: dismissedTab_def)
  have h2: "NewSession \<notin> set [TimerFires 0, BeforeInstallPrompt 7, Reload,
      SettingsChange False, SettingsChange True, TimerFires 0]" by simp
  have h3: "enablePWABanner dismissedTab \<and> \<not> computeIsStandalone dismissedTab \<and>
      localStorage dismissedTab INSTALLED_KEY \<noteq> Some ''1''" by code_simp
  from c h1 h2 h3 show ?thesis by blast
qed

subsection \<open>C6: the captured event is used once\<close>

text \<open>
  C6 as stated has a second invocation of Install, with no new install-availability event
  in between, never call \<open>prompt()\<close> again. \<open>handleInstallClick\<close> clears
  \<open>deferredPrompt\<close> only in its \<open>finally\<close>, after the awaited choice has settled: a second
  click before that finds the event still stored and calls \<open>prompt()\<close> on it again, with
  no alert.
\<close>

theorem C6_second_click_before_choice_prompts_again:
  "deferredPrompt (run promptCaptured [Click InstallBtn]) = Some 7 \<and>
   effects (run promptCaptured [Click InstallBtn, Click InstallBtn])
     = [PreventDefault 7, PromptCalled 7, PromptCalled 7]"
  by code_simp

text \<open>
  C6, amended: for every state with a captured event, Install calls \<open>prompt()\<close> on it,
  and when the user's choice settles, whatever the outcome (accepted, dismissed, missing,
  or a rejected promise), the event is cleared; an Install invoked after that, with no new
  install-availability event, calls no \<open>prompt()\<close> and shows the fallback instruction.
  With no captured event Install only shows the fallback instruction.
\<close>

theorem C6_handle_cleared_when_choice_settles:
  "(deferredPrompt w = Some h \<and> mounted w \<longrightarrow>
      (let w1 = handleInstallClick w; w2 = resumeInstallClick c w1;
           w3 = handleInstallClick w2
       in effects w1 = effects w @ [PromptCalled h] \<and>
          deferredPrompt w2 = None \<and> effects w2 = effects w1 \<and>
          effects w3 = effects w2 @ [AlertInstallInstructions] \<and>
          deferredPrompt w3 = None \<and> awaitingChoice w3 = awaitingChoice w2)) \<and>
   (deferredPrompt v = None \<longrightarrow>
      handleInstallClick v = v\<lparr>effects := effects v @ [AlertInstallInstructions]\<rparr>)"
  by (cases c)
     (simp_all add: handleInstallClick_def resumeInstallClick_def setter_defs Let_def)

theorem C6_handle_cleared_when_choice_settles_witness:
  "deferredPrompt promptCaptured = Some 7 \<and> mounted promptCaptured \<and>
   (let w1 = handleInstallClick promptCaptured;
        w2 = resumeInstallClick (Resolved (Some ''dismissed'')) w1;
        w3 = handleInstallClick w2
    in effects w1 = effects promptCaptured @ [PromptCalled 7] \<and>
       deferredPrompt w2 = None \<and> effects w2 = effects w1 \<and>
       effects w3 = effects w2 @ [AlertInstallInstructions] \<and>
       deferredPrompt w3 = None \<and> awaitingChoice w3 = awaitingChoice w2) \<and>
   deferredPrompt bannerShown = None \<and>
   handleInstallClick bannerShown
     = bannerShown\<lparr>effects := effects bannerShown @ [AlertInstallInstructions]\<rparr>"
proof -
  note c = C6_handle_cleared_when_choice_settles
    [of promptCaptured 7 "Resolved (Some ''dismissed'')" bannerShown]
  have h1: "deferredPrompt promptCaptured = Some 7" by code_simp
  have h2: "mounted promptCaptured" by code_simp
  have h3: "deferredPrompt bannerShown = None" by code_simp
  from c h1 h2 h3 show ?thesis by blast
qed

subsection \<open>C7: the durable installed marker\<close>

text \<open>
  C7: a click on "Ja instalei", and a click on "Instalar App" with a captured event whose
  choice settles as accepted, both write \<open>pwa_installed_v1 = "1"\<close> and set \<open>showBanner\<close>
  to false, so that nothing is rendered. On every later page load with the marker present
  (in the same or in a new session) the effect returns before it schedules anything, and
  along any events after that load nothing is rendered, no timeout or listener exists and
  the marker stays.
\<close>

theorem C7_installed_flag_set_and_kept:
  "(render w \<noteq> RenderNothing \<longrightarrow>
      (let w' = step w (Click AlreadyInstalledBtn)
       in localStorage w' INSTALLED_KEY = Some ''1'' \<and> \<not> showBanner w' \<and>
          render w' = RenderNothing)) \<and>
   (render u = InstallPanel \<and> deferredPrompt u = Some h \<longrightarrow>
      (let u' = run u [Click InstallBtn, ChoiceSettled (Resolved (Some ''accepted''))]
       in effects u' = effects u @ [PromptCalled h] \<and>
          localStorage u' INSTALLED_KEY = Some ''1'' \<and> \<not> showBanner u' \<and>
          render u' = RenderNothing)) \<and>
   (localStorage v INSTALLED_KEY = Some ''1'' \<longrightarrow>
      runEffect v = v \<and>
      (let w' = run v (Reload # evs)
       in render w' = RenderNothing \<and> \<not> showBanner w' \<and> timers w' = [] \<and>
          bipListeners w' = [] \<and> localStorage w' INSTALLED_KEY = Some ''1'') \<and>
      (let w' = run v (NewSession # evs)
       in render w' = RenderNothing \<and> \<not> showBanner w' \<and> timers w' = [] \<and>
          bipListeners w' = [] \<and> localStorage w' INSTALLED_KEY = Some ''1''))"
proof (intro conjI impI)
  assume a: "render w \<noteq> RenderNothing"
  then have m: "mounted w" by (auto simp: render_def split: if_splits)
  have o: "offers (render w) AlreadyInstalledBtn" using a by (cases "render w") simp_all
  show "let w' = step w (Click AlreadyInstalledBtn)
       in localStorage w' INSTALLED_KEY = Some ''1'' \<and> \<not> showBanner w' \<and>
          render w' = RenderNothing"
    using m o by (simp add: handleAlreadyInstalled_def setter_defs render_def)
next
  assume a: "render u = InstallPanel \<and> deferredPrompt u = Some h"
  then have m: "mounted u" by (auto simp: render_def split: if_splits)
  show "let u' = run u [Click InstallBtn, ChoiceSettled (Resolved (Some ''accepted''))]
       in effects u' = effects u @ [PromptCalled h] \<and>
          localStorage u' INSTALLED_KEY = Some ''1'' \<and> \<not> showBanner u' \<and>
          render u' = RenderNothing"
    using a m
    by (simp add: run_def handleInstallClick_def resumeInstallClick_def setter_defs render_def)
next
  assume a: "localStorage v INSTALLED_KEY = Some ''1''"
  then show "runEffect v = v" by (simp add: runEffect_def)
  have s: "suppressed (v\<lparr>isStandalone := computeIsStandalone v\<rparr>)"
    using a by (simp add: suppressed_def)
  have q: "quiescent (reload v)" by (rule reload_suppressed_quiescent [OF s])
  have f: "localStorage (reload v) INSTALLED_KEY = Some ''1''"
    using a by (simp add: reload_suppressed [OF s])
  note r = installed_run [OF q f, of evs]
  then have "render (run (reload v) evs) = RenderNothing" by (simp add: quiescent_render)
  then show "let w' = run v (Reload # evs)
       in render w' = RenderNothing \<and> \<not> showBanner w' \<and> timers w' = [] \<and>
          bipListeners w' = [] \<and> localStorage w' INSTALLED_KEY = Some ''1''"
    using r by (simp add: quiescent_def run_def)
  let ?v = "v\<lparr>sessionStorage := Map.empty\<rparr>"
  have s': "suppressed (?v\<lparr>isStandalone := computeIsStandalone ?v\<rparr>)"
    using a by (simp add: suppressed_def)
  have q': "quiescent (newSession v)"
    unfolding newSession_def by (rule reload_suppressed_quiescent [OF s'])
  have f': "localStorage (newSession v) INSTALLED_KEY = Some ''1''"
    using a by (simp add: newSession_def reload_suppressed [OF s'])
  note r' = installed_run [OF q' f', of evs]
  then have "render (run (newSession v) evs) = RenderNothing" by (simp add: quiescent_render)
  then show "let w' = run v (NewSession # evs)
       in render w' = RenderNothing \<and> \<not> showBanner w' \<and> timers w' = [] \<and>
          bipListeners w' = [] \<and> localStorage w' INSTALLED_KEY = Some ''1''"
    using r' by (simp add: quiescent_def run_def)
qed

theorem C7_installed_flag_set_and_kept_witness:
  "render bannerShown \<noteq> RenderNothing \<and>
   (let w' = step bannerShown (Click AlreadyInstalledBtn)
    in localStorage w' INSTALLED_KEY = Some ''1'' \<and> \<not> showBanner w' \<and>
       render w' = RenderNothing) \<and>
   render promptCaptured = InstallPanel \<and> deferredPrompt promptCaptured = Some 7 \<and>
   (let u' = run promptCaptured [Click InstallBtn, ChoiceSettled (Resolved (Some ''accepted''))]
    in effects u' = effects promptCaptured @ [PromptCalled 7] \<and>
       localStorage u' INSTALLED_KEY = Some ''1'' \<and> \<not> showBanner u' \<and>
       render u' = RenderNothing) \<and>
   localStorage installAccepted INSTALLED_KEY = Some ''1'' \<and>
   runEffect installAccepted = installAccepted \<and>
   (let w' = run installAccepted
               [Reload, TimerFires 0, BeforeInstallPrompt 8, Click InstallBtn, TimerFires 1]
    in render w' = RenderNothing \<and> \<not> showBanner w' \<and> timers w' = [] \<and>
       bipListeners w' = [] \<and> localStorage w' INSTALLED_KEY = Some ''1'') \<and>
   (let w' = run installAccepted
               [NewSession, TimerFires 0, BeforeInstallPrompt 8, Click InstallBtn, TimerFires 1]
    in render w' = RenderNothing \<and> \<not> showBanner w' \<and> timers w' = [] \<and>
       bipListeners w' = [] \<and> localStorage w' INSTALLED_KEY = Some ''1'')"
proof -
  note c = C7_installed_flag_set_and_kept [of bannerShown promptCaptured 7 installAccepted
      "[TimerFires 0, BeforeInstallPrompt 8, Click InstallBtn, TimerFires 1]"]
  have h1: "render bannerShown \<noteq> RenderNothing" by code_simp
  have h2: "render promptCaptured = InstallPanel" by code_simp
  have h3: "deferredPrompt promptCaptured = Some 7" by code_simp
  have h4: "localStorage installAccepted INSTALLED_KEY = Some ''1''" by code_simp
  from c h1 h2 h3 h4 show ?thesis by blast
qed

subsection \<open>C8: failures degrade to defaults\<close>

text \<open>
  C8 as stated has every failure path degrade to a safe default without surfacing an
  error. The storage calls are failure paths too, and all but one stand outside any
  \<open>try\<close>. When \<open>sessionStorage.setItem\<close> throws, a click on the close button ends with
  the exception uncaught and the banner still rendered, also after a rejected choice; when
  \<open>localStorage.getItem\<close> throws, the effect of a page load ends with the exception
  uncaught.
\<close>

theorem C8_storage_failure_is_uncaught:
  "render bannerShown = InstallPanel \<and> uncaught bannerShown = [] \<and>
   render (runE bannerShown [StorageThrows (Click DismissBtn)]) = InstallPanel \<and>
   uncaught (runE bannerShown [StorageThrows (Click DismissBtn)]) = [StorageError] \<and>
   render (runE choicePending [Works (ChoiceSettled Rejected)]) = InstallPanel \<and>
   render (runE choicePending
             [Works (ChoiceSettled Rejected), StorageThrows (Click DismissBtn)])
     = InstallPanel \<and>
   uncaught (runE choicePending
               [Works (ChoiceSettled Rejected), StorageThrows (Click DismissBtn)])
     = [StorageError] \<and>
   uncaught (runE chromeTab [StorageThrows Reload]) = [StorageError]"
  by code_simp

text \<open>
  C8, amended: the two failures the code guards degrade to a safe default and surface no
  error. When the body of the standalone check throws, which it does when the media query
  throws or when the media query answers false and reading the legacy property throws, the
  check is false and the page load leaves no uncaught exception. When the awaited choice is
  rejected, whether or not the storages work, the suspended \<open>handleInstallClick\<close> only
  clears \<open>deferredPrompt\<close> and leaves no uncaught exception; what is rendered does not
  change, and if the banner is shown, a click on its close button while the session store
  accepts the write hides it and sets the session flag.
\<close>

theorem C8_guarded_failures_degrade:
  "(isl (isStandaloneBody w) \<longrightarrow> \<not> computeIsStandalone w) \<and>
   (isl (matchMediaStandalone w1) \<longrightarrow>
      isl (isStandaloneBody w1) \<and> \<not> computeIsStandalone w1 \<and>
      uncaught (stepE w1 (Works Reload)) = uncaught w1) \<and>
   (matchMediaStandalone w2 = Inr False \<and> isl (navigatorStandalone w2) \<longrightarrow>
      isl (isStandaloneBody w2) \<and> \<not> computeIsStandalone w2 \<and>
      uncaught (stepE w2 (Works Reload)) = uncaught w2) \<and>
   (mounted v \<and> 0 < awaitingChoice v \<longrightarrow>
      (let v' = stepE v (Works (ChoiceSettled Rejected))
       in stepE v (StorageThrows (ChoiceSettled Rejected)) = v' \<and>
          v' = v\<lparr>awaitingChoice := awaitingChoice v - 1, deferredPrompt := None\<rparr> \<and>
          uncaught v' = uncaught v \<and> render v' = render v \<and>
          (render v' \<noteq> RenderNothing \<longrightarrow>
             render (stepE v' (Works (Click DismissBtn))) = RenderNothing \<and>
             sessionStorage (stepE v' (Works (Click DismissBtn))) HIDE_SESSION_KEY
               = Some ''1'' \<and>
             uncaught (stepE v' (Works (Click DismissBtn))) = uncaught v)))"
proof (intro conjI impI)
  assume a: "mounted v \<and> 0 < awaitingChoice v"
  then have e: "stepE v (Works (ChoiceSettled Rejected)) =
      v\<lparr>awaitingChoice := awaitingChoice v - 1, deferredPrompt := None\<rparr>"
    by (simp add: resumeInstallClick_def setter_defs)
  from a have e': "stepE v (StorageThrows (ChoiceSettled Rejected)) =
      v\<lparr>awaitingChoice := awaitingChoice v - 1, deferredPrompt := None\<rparr>"
    by (simp add: resumeInstallClickThrows_def setter_defs)
  show "let v' = stepE v (Works (ChoiceSettled Rejected))
       in stepE v (StorageThrows (ChoiceSettled Rejected)) = v' \<and>
          v' = v\<lparr>awaitingChoice := awaitingChoice v - 1, deferredPrompt := None\<rparr> \<and>
          uncaught v' = uncaught v \<and> render v' = render v \<and>
          (render v' \<noteq> RenderNothing \<longrightarrow>
             render (stepE v' (Works (Click DismissBtn))) = RenderNothing \<and>
             sessionStorage (stepE v' (Works (Click DismissBtn))) HIDE_SESSION_KEY
               = Some ''1'' \<and>
             uncaught (stepE v' (Works (Click DismissBtn))) = uncaught v)"
    unfolding Let_def e e'
    by (simp add: render_def handleDismissForSession_def setter_defs)
qed (auto simp: computeIsStandalone_def isStandaloneBody_def isl_def uncaught_reload
      split: sum.splits bool.splits)

theorem C8_guarded_failures_degrade_witness:
  "isl (matchMediaStandalone homeScreenNoMatchMedia) \<and>
   isl (isStandaloneBody homeScreenNoMatchMedia) \<and>
   \<not> computeIsStandalone homeScreenNoMatchMedia \<and>
   uncaught (stepE homeScreenNoMatchMedia (Works Reload)) = uncaught homeScreenNoMatchMedia \<and>
   matchMediaStandalone navigatorThrows = Inr False \<and>
   isl (navigatorStandalone navigatorThrows) \<and>
   isl (isStandaloneBody navigatorThrows) \<and> \<not> computeIsStandalone navigatorThrows \<and>
   uncaught (stepE navigatorThrows (Works Reload)) = uncaught navigatorThrows \<and>
   mounted choicePending \<and> 0 < awaitingChoice choicePending \<and>
   render choicePending = InstallPanel \<and>
   (let v' = stepE choicePending (Works (ChoiceSettled Rejected))
    in stepE choicePending (StorageThrows (ChoiceSettled Rejected)) = v' \<and>
       v' = choicePending\<lparr>awaitingChoice := awaitingChoice choicePending - 1,
                          deferredPrompt := None\<rparr> \<and>
       uncaught v' = uncaught choicePending \<and>
       render v' = render choicePending \<and>
       render (stepE v' (Works (Click DismissBtn))) = RenderNothing \<and>
       sessionStorage (stepE v' (Works (Click DismissBtn))) HIDE_SESSION_KEY = Some ''1'' \<and>
       uncaught (stepE v' (Works (Click DismissBtn))) = uncaught choicePending)"
proof -
  note c = C8_guarded_failures_degrade
    [of homeScreenNoMatchMedia homeScreenNoMatchMedia navigatorThrows choicePending]
  have h1: "isl (matchMediaStandalone homeScreenNoMatchMedia)" by code_simp
  have h2: "matchMediaStandalone navigatorThrows = Inr False" by code_simp
  have h3: "isl (navigatorStandalone navigatorThrows)" by code_simp
  have h4: "mounted choicePending" by code_simp
  have h5: "0 < awaitingChoice choicePending" by code_simp
  have h6: "render choicePending = InstallPanel" by code_simp
  from c h4 h5 have p:
    "let v' = stepE choicePending (Works (ChoiceSettled Rejected))
       in stepE choicePending (StorageThrows (ChoiceSettled Rejected)) = v' \<and>
          v' = choicePending\<lparr>awaitingChoice := awaitingChoice choicePending - 1,
                             deferredPrompt := None\<rparr> \<and>
          uncaught v' = uncaught choicePending \<and> render v' = render choicePending \<and>
          (render v' \<noteq> RenderNothing \<longrightarrow>
             render (stepE v' (Works (Click DismissBtn))) = RenderNothing \<and>
             sessionStorage (stepE v' (Works (Click DismissBtn))) HIDE_SESSION_KEY
               = Some ''1'' \<and>
             uncaught (stepE v' (Works (Click DismissBtn))) = uncaught choicePending)"
    by blast
  from p h6 have q:
    "let v' = stepE choicePending (Works (ChoiceSettled Rejected))
    in stepE choicePending (StorageThrows (ChoiceSettled Rejected)) = v' \<and>
       v' = choicePending\<lparr>awaitingChoice := awaitingChoice choicePending - 1,
                          deferredPrompt := None\<rparr> \<and>
       uncaught v' = uncaught choicePending \<and>
       render v' = render choicePending \<and>
       render (stepE v' (Works (Click DismissBtn))) = RenderNothing \<and>
       sessionStorage (stepE v' (Works (Click DismissBtn))) HIDE_SESSION_KEY = Some ''1'' \<and>
       uncaught (stepE v' (Works (Click DismissBtn))) = uncaught choicePending"
    unfolding Let_def by (metis view.distinct(3))
  from c h1 h2 h3 h4 h5 h6 q show ?thesis by blast
qed

subsection \<open>C9: teardown\<close>

text \<open>
  C9 as stated has no stale callback act after the teardown. The cleanup does not reach a
  \<open>handleInstallClick\<close> suspended at its \<open>await\<close>: with the install prompt open, the
  component is unmounted and the choice then settles as accepted, which writes the
  installed marker; after the setting is switched off instead, the same continuation also
  sets \<open>showBanner\<close> to false and clears \<open>deferredPrompt\<close>.
\<close>

theorem C9_suspended_install_acts_after_teardown:
  "localStorage (run choicePending [Unmount]) INSTALLED_KEY = None \<and>
   localStorage (run choicePending [Unmount, ChoiceSettled (Resolved (Some ''accepted''))])
     INSTALLED_KEY = Some ''1'' \<and>
   showBanner (run choicePending [SettingsChange False]) \<and>
   deferredPrompt (run choicePending [SettingsChange False]) = Some 7 \<and>
   localStorage (run choicePending [SettingsChange False]) INSTALLED_KEY = None \<and>
   \<not> showBanner
       (run choicePending [SettingsChange False, ChoiceSettled (Resolved (Some ''accepted''))]) \<and>
   deferredPrompt
     (run choicePending [SettingsChange False, ChoiceSettled (Resolved (Some ''accepted''))])
     = None \<and>
   localStorage
     (run choicePending [SettingsChange False, ChoiceSettled (Resolved (Some ''accepted''))])
     INSTALLED_KEY = Some ''1''"
  by code_simp

text \<open>
  C9, amended: in every state reached on a page load where the effect is active, tearing it
  down, by unmounting the component or by switching \<open>enablePWABanner\<close> off, runs the
  cleanup, after which no timeout is pending and neither listener is attached, so that
  neither the callback of the timeout nor either listener of the torn down effect acts
  afterwards: a later firing of the timeout, \<open>beforeinstallprompt\<close> or \<open>appinstalled\<close>
  leaves the state as it is.
\<close>

theorem C9_teardown_cancels_and_detaches:
  assumes "cleanupFn (run (reload w0) evs) \<noteq> None"
  shows "let w = run (reload w0) evs; u = step w Unmount; s = step w (SettingsChange False)
         in u = (runCleanup w)\<lparr>mounted := False\<rparr> \<and>
            timers u = [] \<and> bipListeners u = [] \<and> installedListeners u = [] \<and>
            step u (TimerFires t) = u \<and> step u (BeforeInstallPrompt h) = u \<and>
            step u AppInstalled = u \<and>
            s = runCleanup (w\<lparr>enablePWABanner := False\<rparr>) \<and>
            timers s = [] \<and> bipListeners s = [] \<and> installedListeners s = [] \<and>
            step s (TimerFires t) = s \<and> step s (BeforeInstallPrompt h) = s \<and>
            step s AppInstalled = s"
proof -
  define w where "w = run (reload w0) evs"
  define u where "u = step w Unmount"
  define s where "s = step w (SettingsChange False)"
  from assms obtain i where i: "cleanupFn w = Some i" by (auto simp: w_def)
  have inv: "engineInv w" by (simp add: w_def engineInv_reachable)
  from inv i have m: "mounted w" "enablePWABanner w" by (simp_all add: engineInv_def)
  have u: "u = (runCleanup w)\<lparr>mounted := False\<rparr>" using m by (simp add: u_def)
  have du: "timers u = []" "bipListeners u = []" "installedListeners u = []"
    by (simp_all add: u runCleanup_detaches [OF inv])
  have "runEffect (runCleanup (w\<lparr>enablePWABanner := False\<rparr>)) =
        runCleanup (w\<lparr>enablePWABanner := False\<rparr>)"
    by (simp add: runEffect_def runCleanup_def split: option.splits)
  then have s: "s = runCleanup (w\<lparr>enablePWABanner := False\<rparr>)"
    using m by (simp add: s_def)
  have ds: "timers s = []" "bipListeners s = []" "installedListeners s = []"
    using inv i by (auto simp: s engineInv_def runCleanup_def)
  have su: "step u (TimerFires t) = u" "step u (BeforeInstallPrompt h) = u"
    "step u AppInstalled = u" by (rule detached_stale [OF du])+
  have ss: "step s (TimerFires t) = s" "step s (BeforeInstallPrompt h) = s"
    "step s AppInstalled = s" by (rule detached_stale [OF ds])+
  from u du s ds su ss show ?thesis
    unfolding Let_def w_def [symmetric] u_def [symmetric] s_def [symmetric] by blast
qed

theorem C9_teardown_cancels_and_detaches_witness:
  "timers choicePending = [0] \<and> bipListeners choicePending = [0] \<and>
   installedListeners choicePending = [0] \<and>
   (let w = choicePending; u = step w Unmount; s = step w (SettingsChange False)
    in u = (runCleanup w)\<lparr>mounted := False\<rparr> \<and>
       timers u = [] \<and> bipListeners u = [] \<and> installedListeners u = [] \<and>
       step u (TimerFires 0) = u \<and> step u (BeforeInstallPrompt 8) = u \<and>
       step u AppInstalled = u \<and>
       s = runCleanup (w\<lparr>enablePWABanner := False\<rparr>) \<and>
       timers s = [] \<and> bipListeners s = [] \<and> installedListeners s = [] \<and>
       step s (TimerFires 0) = s \<and> step s (BeforeInstallPrompt 8) = s \<and>
       step s AppInstalled = s)"
proof -
  have r: "run (reload chromeTab) [BeforeInstallPrompt 7, Click InstallBtn] = choicePending"
    by (simp add: choicePending_def promptCaptured_def run_def)
  have h: "cleanupFn (run (reload chromeTab) [BeforeInstallPrompt 7, Click InstallBtn]) \<noteq> None"
    by code_simp
  have b: "timers choicePending = [0]" "bipListeners choicePending = [0]"
    "installedListeners choicePending = [0]"
    by code_simp+
  note c = C9_teardown_cancels_and_detaches [OF h, of 0 8, unfolded r]
  from b c show ?thesis unfolding Let_def by blast
qed

subsection \<open>C10: an install that is not accepted\<close>

text \<open>
  C10: when Install is clicked with a captured event and the choice settles to anything
  but the outcome \<open>"accepted"\<close> (dismissed, no outcome, a rejected promise), the state
  afterwards differs from the state before only in \<open>deferredPrompt\<close>, now cleared, and in
  the recorded call of \<open>prompt()\<close>: \<open>showBanner\<close> and both stores are unchanged and the
  install panel is still rendered.
\<close>

theorem C10_declined_install_only_clears_handle:
  assumes "render w = InstallPanel" and "deferredPrompt w = Some h"
    and "c \<noteq> Resolved (Some ''accepted'')"
  shows "let w' = run w [Click InstallBtn, ChoiceSettled c]
         in w' = w\<lparr>effects := effects w @ [PromptCalled h], deferredPrompt := None\<rparr> \<and>
            deferredPrompt w' = None \<and> showBanner w' = showBanner w \<and>
            localStorage w' = localStorage w \<and> sessionStorage w' = sessionStorage w \<and>
            render w' = InstallPanel"
proof -
  have m: "mounted w" "enablePWABanner w" "showBanner w" "\<not> isIOS w"
    using assms(1) by (auto simp: render_def split: if_splits)
  have "run w [Click InstallBtn, ChoiceSettled c] =
        w\<lparr>effects := effects w @ [PromptCalled h], deferredPrompt := None\<rparr>"
    using assms m
    by (cases c)
       (simp_all add: run_def handleInstallClick_def resumeInstallClick_def setter_defs)
  then show ?thesis using m by (simp add: render_def)
qed

theorem C10_declined_install_only_clears_handle_witness:
  "render promptCaptured = InstallPanel \<and> deferredPrompt promptCaptured = Some 7 \<and>
   (let w' = run promptCaptured [Click InstallBtn, ChoiceSettled (Resolved (Some ''dismissed''))]
    in w' = promptCaptured\<lparr>effects := effects promptCaptured @ [PromptCalled 7],
                           deferredPrompt := None\<rparr> \<and>
       deferredPrompt w' = None \<and> showBanner w' = showBanner promptCaptured \<and>
       localStorage w' = localStorage promptCaptured \<and>
       sessionStorage w' = sessionStorage promptCaptured \<and>
       render w' = InstallPanel)"
proof -
  have h1: "render promptCaptured = InstallPanel" by code_simp
  have h2: "deferredPrompt promptCaptured = Some 7" by code_simp
  have h3: "Resolved (Some ''dismissed'') \<noteq> Resolved (Some ''accepted'')" by simp
  show ?thesis using h1 h2 C10_declined_install_only_clears_handle [OF h1 h2 h3] by blast
qed

end
